theory Spec2Isabelle
  imports Complex_Main "HOL-Library.Sublist"
begin

section \<open>Values of the data frame\<close>

text \<open>
  The dashboard keeps its readings in a pandas data frame. A numeric cell is a float64:
  it is modelled as an exact rational or one of the two infinities, and the NaN that
  pandas stores for a missing or uncoercible value is \<open>None\<close> (\<open>pd.isna\<close> and
  \<open>pd.notna\<close> test exactly that). Rounding of float arithmetic is outside the model.
  Strings are byte strings: a character beyond ASCII is its UTF-8 bytes, and no byte
  above \<open>0x7F\<close> counts as a digit or as white space.
\<close>

datatype fnum = Fin rat | PosInf | NegInf

datatype error = DateParseError | OverflowError

definition isna :: "'a option \<Rightarrow> bool" where
  "isna x = (x = None)"

definition notna :: "'a option \<Rightarrow> bool" where
  "notna x = (x \<noteq> None)"

section \<open>Integers and their decimal text\<close>

text \<open>\<open>int(x)\<close> on a float: truncation toward zero, OverflowError on an infinity.\<close>

fun py_int :: "fnum \<Rightarrow> error + int" where
  "py_int (Fin x) = Inr (if 0 \<le> x then \<lfloor>x\<rfloor> else \<lceil>x\<rceil>)"
| "py_int PosInf = Inl OverflowError"
| "py_int NegInf = Inl OverflowError"

definition digit_char :: "nat \<Rightarrow> char" where
  "digit_char d = ''0123456789'' ! d"

fun str_nat :: "nat \<Rightarrow> string" where
  "str_nat n = (if n < 10 then [digit_char n] else str_nat (n div 10) @ [digit_char (n mod 10)])"

declare str_nat.simps [simp del]

text \<open>\<open>str(n)\<close>, the text an f-string puts for an integer.\<close>

definition str_int :: "int \<Rightarrow> string" where
  "str_int n = (if n < 0 then CHR ''-'' # str_nat (nat (- n)) else str_nat (nat n))"

section \<open>Status codes\<close>

definition emoji_retry :: string where
  "emoji_retry = [CHR 0xF0, CHR 0x9F, CHR 0x94, CHR 0x84]"

definition emoji_wifi :: string where
  "emoji_wifi = [CHR 0xF0, CHR 0x9F, CHR 0x93, CHR 0xB6]"

definition emoji_battery :: string where
  "emoji_battery = [CHR 0xF0, CHR 0x9F, CHR 0x94, CHR 0x8B]"

definition emoji_check :: string where
  "emoji_check = [CHR 0xE2, CHR 0x9C, CHR 0x85]"

definition status_map :: "int \<rightharpoonup> string" where
  "status_map = map_of
     [(1, emoji_retry @ '' Upload Retry Success''),
      (2, emoji_wifi @ '' WiFi Retry Success''),
      (3, emoji_battery @ '' Low Battery Warning''),
      (4, emoji_check @ '' Normal Reading'')]"

text \<open>
  \<open>get_status_text\<close>: "Unknown" for a NaN, else the table entry of \<open>int(status_code)\<close>,
  else \<open>Code: n\<close>.
\<close>

definition get_status_text :: "fnum option \<Rightarrow> error + string" where
  "get_status_text status_code =
     (if isna status_code then Inr ''Unknown''
      else case py_int (the status_code) of
             Inl e \<Rightarrow> Inl e
           | Inr n \<Rightarrow> Inr (case status_map n of
                             Some label \<Rightarrow> label
                           | None \<Rightarrow> ''Code: '' @ str_int n))"

text \<open>
  The two lambdas of \<open>main\<close> that derive the attempts and the bar colour of a reading.
  \<open>x in [1, 2]\<close> compares by equality, so only the exact values 1 and 2 are retries.
\<close>

definition attempts :: "fnum option \<Rightarrow> int" where
  "attempts x =
     (if x \<in> set [Some (Fin 1), Some (Fin 2)] then 2 else if notna x then 1 else 1)"

definition status_color :: "fnum option \<Rightarrow> string" where
  "status_color x =
     (if x \<in> set [Some (Fin 1), Some (Fin 2)] then ''red''
      else if notna x then ''green'' else ''blue'')"

section \<open>Signal strength in a log message\<close>


definition is_digit :: "char \<Rightarrow> bool" where
  "is_digit c = (c \<in> set ''0123456789'')"

definition digit_val :: "char \<Rightarrow> nat" where
  "digit_val c = of_char c - 48"

definition digits_val :: "string \<Rightarrow> nat" where
  "digits_val ds = foldl (\<lambda>a c. 10 * a + digit_val c) 0 ds"

text \<open>\<open>int(g)\<close> on the text of the group: an optional minus sign, then digits.\<close>

definition int_of_str :: "string \<Rightarrow> int" where
  "int_of_str g =
     (if prefix ''-'' g then - int (digits_val (drop 1 g)) else int (digits_val g))"








section \<open>The library functions\<close>

text \<open>
  \<open>process_data\<close> calls three functions that are not code of the dashboard:
  \<open>pd.to_datetime\<close>, \<open>pd.to_numeric(errors='coerce')\<close> and \<open>urllib.parse.unquote_plus\<close>.
  They are parameters of the model, each applied to one cell:
  \<^item> \<open>to_datetime\<close> gives the instant in seconds, or \<open>None\<close> where pandas raises;
  \<^item> \<open>to_numeric\<close> gives the number, or \<open>None\<close> for the NaN it coerces a failure to;
  \<^item> \<open>unquote_plus\<close> gives the decoded text.
  What is proved of \<open>process_data\<close> holds for every such library.
\<close>

record library =
  to_datetime :: "string \<Rightarrow> rat option"
  to_numeric :: "string \<Rightarrow> fnum option"
  unquote_plus :: "string \<Rightarrow> string"

section \<open>From the feeds to the data frame\<close>

text \<open>
  An entry of the feed list: its \<open>created_at\<close> text and the keys \<open>field1\<close> to \<open>field8\<close>
  that have a value, with their texts. A field that is null or missing has no pair, and
  \<open>field_of\<close> reads it as absent, as the cell of the data frame is.
\<close>

record raw_entry =
  raw_created_at :: string
  raw_fields :: "(string \<times> string) list"

definition field_of :: "raw_entry \<Rightarrow> string \<Rightarrow> string option" where
  "field_of e f = map_of (raw_fields e) f"

text \<open>The response of the API; \<open>feeds = None\<close> is a response without the key.\<close>

record batch =
  feeds :: "raw_entry list option"

text \<open>
  A row of the data frame that \<open>process_data\<close> returns: the instant, the numeric cells
  of \<open>field1\<close> to \<open>field7\<close> that hold a number, and the decoded text. \<open>cell r f\<close> is
  the cell of column \<open>f\<close>, \<open>None\<close> for NaN. A column that no entry fills is not told
  apart from a column of NaN, and \<open>field8\<close> is then the empty text.
\<close>

record row =
  created_at :: rat
  numeric :: "(string \<times> fnum) list"
  field8 :: string


definition NUMERIC_FIELDS :: "string list" where
  "NUMERIC_FIELDS =
     [''field1'', ''field2'', ''field3'', ''field4'', ''field5'', ''field6'', ''field7'']"

text \<open>
  \<open>pd.to_datetime\<close> on the column, with its default \<open>errors='raise'\<close>: one text that does
  not parse raises for the whole column.
\<close>

fun to_datetime_series :: "library \<Rightarrow> string list \<Rightarrow> error + rat list" where
  "to_datetime_series L [] = Inr []"
| "to_datetime_series L (s # ss) =
     (case to_datetime L s of
        None \<Rightarrow> Inl DateParseError
      | Some t \<Rightarrow> (case to_datetime_series L ss of
                     Inl e \<Rightarrow> Inl e
                   | Inr ts \<Rightarrow> Inr (t # ts)))"

text \<open>\<open>pd.to_numeric(..., errors='coerce')\<close> on one cell.\<close>

definition to_numeric_cell :: "library \<Rightarrow> string option \<Rightarrow> fnum option" where
  "to_numeric_cell L x = (case x of None \<Rightarrow> None | Some s \<Rightarrow> to_numeric L s)"

definition replace_plus :: "string \<Rightarrow> string" where
  "replace_plus x = map (\<lambda>c. if c = CHR ''+'' then CHR '' '' else c) x"

definition decode_field8 :: "library \<Rightarrow> string option \<Rightarrow> string" where
  "decode_field8 L x = (if notna x then unquote_plus L (replace_plus (the x)) else [])"

definition make_row :: "library \<Rightarrow> raw_entry \<Rightarrow> rat \<Rightarrow> row" where
  "make_row L e t =
     \<lparr>created_at = t,
      numeric = List.map_filter
                  (\<lambda>f. map_option (Pair f) (to_numeric_cell L (field_of e f))) NUMERIC_FIELDS,
      field8 = decode_field8 L (field_of e ''field8'')\<rparr>"

text \<open>
  \<open>process_data\<close>: \<open>None\<close> for no response, no \<open>feeds\<close> key or an empty feed list;
  else the data frame, one row for each entry in the order of the feed list.
\<close>

definition process_data :: "library \<Rightarrow> batch option \<Rightarrow> error + row list option" where
  "process_data L data =
     (case data of
        None \<Rightarrow> Inr None
      | Some b \<Rightarrow>
          (case feeds b of
             None \<Rightarrow> Inr None
           | Some fs \<Rightarrow>
               if fs = [] then Inr None
               else case to_datetime_series L (map raw_created_at fs) of
                      Inl e \<Rightarrow> Inl e
                    | Inr ts \<Rightarrow> Inr (Some (map2 (make_row L) fs ts))))"

section \<open>Missed updates\<close>

text \<open>
  The message of a notification is an f-string. Its pieces are kept apart: a literal text,
  a number put with \<open>:.1f\<close>, a number put as it is. How a float is printed is outside
  the model.
\<close>

datatype piece = Lit string | Fixed1 rat | Plain rat

definition emoji_siren :: string where
  "emoji_siren = [CHR 0xF0, CHR 0x9F, CHR 0x9A, CHR 0xA8]"

definition emoji_warning :: string where
  "emoji_warning = [CHR 0xE2, CHR 0x9A, CHR 0xA0, CHR 0xEF, CHR 0xB8, CHR 0x8F]"

text \<open>
  \<open>df['created_at'].max()\<close> on a frame that has a row; \<open>check_missed_updates\<close> returns
  before it on an empty frame.
\<close>

fun series_max :: "rat list \<Rightarrow> rat" where
  "series_max [] = 0"
| "series_max [t] = t"
| "series_max (t # u # ts) = max t (series_max (u # ts))"

text \<open>
  \<open>check_missed_updates\<close>, with the clock reading \<open>now\<close> in seconds on the time axis of
  the timestamps. The result is the kind of the notification and its message.
\<close>

definition check_missed_updates :: "rat \<Rightarrow> row list option \<Rightarrow> rat \<Rightarrow> string \<times> piece list" where
  "check_missed_updates now df expected_interval_hours =
     (if df = None \<or> the df = [] then (''danger'', [Lit ''No data available''])
      else
        let latest_update = series_max (map created_at (the df));
            time_since_update = (now - latest_update) / 3600;
            warning_threshold = expected_interval_hours + 1 / 2;
            missed_threshold = expected_interval_hours * 2
        in if time_since_update \<ge> missed_threshold then
             (''danger'',
              [Lit (emoji_siren @ '' MISSED UPDATE! Last update was ''),
               Fixed1 time_since_update, Lit '' hours ago (expected every '',
               Plain expected_interval_hours, Lit ''h)''])
           else if time_since_update \<ge> warning_threshold then
             (''warning'',
              [Lit (emoji_warning @ '' Update Overdue: ''), Fixed1 time_since_update,
               Lit '' hours ago (next expected soon)''])
           else
             let next_expected = expected_interval_hours - time_since_update
             in (''success'',
                 [Lit (emoji_check @ '' Status Normal: Last update ''),
                  Fixed1 time_since_update, Lit ''h ago (next in '',
                  Fixed1 next_expected, Lit ''h)'']))"

section \<open>A library for concrete readings\<close>

text \<open>
  To evaluate \<open>process_data\<close> on concrete feeds, the three library functions are given
  on the texts the API sends: timestamps as \<open>YYYY-MM-DDTHH:MM:SSZ\<close>, numbers as plain
  decimals with an optional sign, and percent escapes. pandas accepts more than these
  (other date formats, exponents, padding); no theorem that speaks of every library
  depends on this one.
\<close>

definition num_of :: "string \<Rightarrow> nat option" where
  "num_of ds = (if ds \<noteq> [] \<and> list_all is_digit ds then Some (digits_val ds) else None)"

definition is_leap :: "int \<Rightarrow> bool" where
  "is_leap y = (y mod 4 = 0 \<and> (y mod 100 \<noteq> 0 \<or> y mod 400 = 0))"

definition days_in_month :: "int \<Rightarrow> int \<Rightarrow> int" where
  "days_in_month y m =
     (if m = 2 then (if is_leap y then 29 else 28)
      else if m \<in> set [4, 6, 9, 11] then 30 else 31)"

text \<open>The days from 1970-01-01 to a date of the Gregorian calendar.\<close>

definition days_from_civil :: "int \<Rightarrow> int \<Rightarrow> int \<Rightarrow> int" where
  "days_from_civil y m d =
     (let y' = (if m \<le> 2 then y - 1 else y);
          era = y' div 400;
          yoe = y' - era * 400;
          doy = (153 * (if m > 2 then m - 3 else m + 9) + 2) div 5 + d - 1;
          doe = yoe * 365 + yoe div 4 - yoe div 100 + doy
      in era * 146097 + doe - 719468)"

definition iso_seconds :: "string \<Rightarrow> rat option" where
  "iso_seconds s =
     (if length s = 20 \<and> s ! 4 = CHR ''-'' \<and> s ! 7 = CHR ''-'' \<and> s ! 10 = CHR ''T''
         \<and> s ! 13 = CHR '':'' \<and> s ! 16 = CHR '':'' \<and> s ! 19 = CHR ''Z''
      then
        (case (num_of (take 4 s), num_of (take 2 (drop 5 s)), num_of (take 2 (drop 8 s)),
               num_of (take 2 (drop 11 s)), num_of (take 2 (drop 14 s)),
               num_of (take 2 (drop 17 s))) of
           (Some y, Some m, Some d, Some h, Some mi, Some se) \<Rightarrow>
             if 1 \<le> m \<and> m \<le> 12 \<and> 1 \<le> d \<and> int d \<le> days_in_month (int y) (int m)
                \<and> h < 24 \<and> mi < 60 \<and> se < 60
             then Some (of_int (days_from_civil (int y) (int m) (int d) * 86400
                               + int h * 3600 + int mi * 60 + int se))
             else None
         | _ \<Rightarrow> None)
      else None)"

definition unsigned_decimal :: "string \<Rightarrow> rat option" where
  "unsigned_decimal s =
     (let ip = takeWhile is_digit s; r = dropWhile is_digit s
      in if r = [] then (if ip = [] then None else Some (of_nat (digits_val ip)))
         else if hd r = CHR ''.'' \<and> list_all is_digit (tl r) \<and> (ip \<noteq> [] \<or> tl r \<noteq> [])
         then Some (of_nat (digits_val ip) + of_nat (digits_val (tl r)) / 10 ^ length (tl r))
         else None)"

definition decimal :: "string \<Rightarrow> rat option" where
  "decimal s =
     (if prefix ''-'' s then map_option uminus (unsigned_decimal (drop 1 s))
      else if prefix ''+'' s then unsigned_decimal (drop 1 s)
      else unsigned_decimal s)"

definition hex_val :: "char \<Rightarrow> nat option" where
  "hex_val c =
     (if is_digit c then Some (digit_val c)
      else if c \<in> set ''abcdef'' then Some (of_char c - 87)
      else if c \<in> set ''ABCDEF'' then Some (of_char c - 55)
      else None)"

fun unquote :: "string \<Rightarrow> string" where
  "unquote (c # a # b # r) =
     (if c = CHR ''%'' \<and> hex_val a \<noteq> None \<and> hex_val b \<noteq> None
      then char_of (16 * the (hex_val a) + the (hex_val b)) # unquote r
      else c # unquote (a # b # r))"
| "unquote r = r"

definition sample_library :: library where
  "sample_library =
     \<lparr>to_datetime = iso_seconds,
      to_numeric = (\<lambda>s. map_option Fin (decimal s)),
      unquote_plus = (\<lambda>s. unquote (replace_plus s))\<rparr>"

section \<open>Properties of the status codes\<close>

lemma status_map_cases:
  "status_map n =
     (if n = 1 then Some (emoji_retry @ '' Upload Retry Success'')
      else if n = 2 then Some (emoji_wifi @ '' WiFi Retry Success'')
      else if n = 3 then Some (emoji_battery @ '' Low Battery Warning'')
      else if n = 4 then Some (emoji_check @ '' Normal Reading'')
      else None)"
  by (simp add: status_map_def)

lemma get_status_text_of_int:
  "get_status_text (Some (Fin (of_int n))) =
     Inr (case status_map n of Some label \<Rightarrow> label | None \<Rightarrow> ''Code: '' @ str_int n)"
  by (simp add: get_status_text_def isna_def split: option.splits)

lemma get_status_text_Fin:
  "get_status_text (Some (Fin x)) =
     get_status_text (Some (Fin (of_int (if 0 \<le> x then \<lfloor>x\<rfloor> else \<lceil>x\<rceil>))))"
  by (simp add: get_status_text_def isna_def split: option.splits)

lemma get_status_text_infinite:
  "get_status_text (Some PosInf) = Inl OverflowError"
  "get_status_text (Some NegInf) = Inl OverflowError"
  by (simp_all add: get_status_text_def isna_def)

lemma sublist_Retry_upload: "sublist ''Retry'' (emoji_retry @ '' Upload Retry Success'')"
  unfolding sublist_def
  by (rule exI [of _ "emoji_retry @ '' Upload ''"], rule exI [of _ "'' Success''"]) simp

lemma sublist_Retry_wifi: "sublist ''Retry'' (emoji_wifi @ '' WiFi Retry Success'')"
  unfolding sublist_def
  by (rule exI [of _ "emoji_wifi @ '' WiFi ''"], rule exI [of _ "'' Success''"]) simp

lemma sublist_Normal: "sublist ''Normal'' (emoji_check @ '' Normal Reading'')"
  unfolding sublist_def
  by (rule exI [of _ "emoji_check @ '' ''"], rule exI [of _ "'' Reading''"]) simp

text \<open>
  Claim C9: whatever the status code of a reading is (any number, an infinity, or NaN),
  the attempts value derived for it is 1 or 2.
\<close>

theorem attempts_one_or_two: "attempts x \<in> {1, 2}"
  by (simp add: attempts_def)

lemma digit_char_decimal:
  assumes "d < 10"
  shows "digit_char d \<in> set ''0123456789''" "of_char (digit_char d) - 48 = d"
    "d \<noteq> 0 \<Longrightarrow> digit_char d \<noteq> CHR ''0''"
proof -
  from assms have d: "d \<in> {0, 1, 2, 3, 4, 5, 6, 7, 8, 9}" by auto
  from d show "digit_char d \<in> set ''0123456789''"
    by (auto simp: digit_char_def)
  from d show "of_char (digit_char d) - 48 = d"
    by (auto simp: digit_char_def)
  from d show "d \<noteq> 0 \<Longrightarrow> digit_char d \<noteq> CHR ''0''"
    by (auto simp: digit_char_def)
qed

lemma str_nat_decimal:
  "str_nat n \<noteq> [] \<and> set (str_nat n) \<subseteq> set ''0123456789''
   \<and> (str_nat n = ''0'' \<or> hd (str_nat n) \<noteq> CHR ''0'')
   \<and> foldl (\<lambda>a c. 10 * a + (of_char c - 48)) 0 (str_nat n) = n"
proof (induction n rule: str_nat.induct)
  case (1 n)
  show ?case
  proof (cases "n < 10")
    case True
    then have s: "str_nat n = [digit_char n]"
      by (subst str_nat.simps) simp
    have "n = 0 \<or> n \<noteq> 0" by blast
    then have "[digit_char n] = ''0'' \<or> digit_char n \<noteq> CHR ''0''"
      using digit_char_decimal(3) [OF True] by (auto simp: digit_char_def)
    then show ?thesis
      using digit_char_decimal(1,2) [OF True] by (simp add: s)
  next
    case False
    with 1 have ih: "str_nat (n div 10) \<noteq> []" "set (str_nat (n div 10)) \<subseteq> set ''0123456789''"
      "str_nat (n div 10) = ''0'' \<or> hd (str_nat (n div 10)) \<noteq> CHR ''0''"
      "foldl (\<lambda>a c. 10 * a + (of_char c - 48)) 0 (str_nat (n div 10)) = n div 10" by auto
    have s: "str_nat n = str_nat (n div 10) @ [digit_char (n mod 10)]"
      using False by (subst str_nat.simps) simp
    have m: "n mod 10 < 10" by simp
    have nz: "str_nat (n div 10) \<noteq> ''0''"
    proof
      assume "str_nat (n div 10) = ''0''"
      with ih(4) have "n div 10 = 0" by simp
      with False show False by simp
    qed
    with ih(3) have "hd (str_nat (n div 10)) \<noteq> CHR ''0''" by simp
    then have "hd (str_nat n) \<noteq> CHR ''0''" using ih(1) by (simp add: s)
    then show ?thesis
      using ih(1,2,4) digit_char_decimal(1,2) [OF m] by (simp add: s)
  qed
qed

lemma code_label:
  "\<exists>ds. ''Code: '' @ str_int n = ''Code: '' @ (if n < 0 then ''-'' else []) @ ds
        \<and> ds \<noteq> [] \<and> set ds \<subseteq> set ''0123456789''
        \<and> (ds = ''0'' \<or> hd ds \<noteq> CHR ''0'')
        \<and> foldl (\<lambda>a c. 10 * a + (of_char c - 48)) 0 ds = nat \<bar>n\<bar>"
proof (cases "n < 0")
  case True
  then show ?thesis
    using str_nat_decimal [of "nat (- n)"]
    by (intro exI [of _ "str_nat (nat (- n))"]) (simp add: str_int_def)
next
  case False
  then show ?thesis
    using str_nat_decimal [of "nat n"]
    by (intro exI [of _ "str_nat (nat n)"]) (simp add: str_int_def)
qed

text \<open>
  Claim C7: for an integer status code \<open>n\<close> the attempt count and the label are functions
  of \<open>n\<close>: codes 1 and 2 give the count 2 and a label containing "Retry"; every other
  code gives the count 1, with the low-battery label for 3, a label containing "Normal"
  for 4, and \<open>Code: n\<close> otherwise, where \<open>n\<close> is written in decimal: a minus sign for a
  negative code, then digits without a leading zero that read as the absolute value
  (\<open>Code: 0\<close>, \<open>Code: 7\<close>, \<open>Code: 404\<close>, \<open>Code: -4\<close>); an absent code gives the count 1
  and the label "Unknown".
\<close>

theorem derive_attempts_table:
  "attempts (Some (Fin (of_int n))) = (if n = 1 \<or> n = 2 then 2 else 1)
   \<and> get_status_text (Some (Fin (of_int n))) =
       Inr (if n = 1 then emoji_retry @ '' Upload Retry Success''
            else if n = 2 then emoji_wifi @ '' WiFi Retry Success''
            else if n = 3 then emoji_battery @ '' Low Battery Warning''
            else if n = 4 then emoji_check @ '' Normal Reading''
            else ''Code: '' @ str_int n)
   \<and> (\<exists>ds. ''Code: '' @ str_int n = ''Code: '' @ (if n < 0 then ''-'' else []) @ ds
          \<and> ds \<noteq> [] \<and> set ds \<subseteq> set ''0123456789''
          \<and> (ds = ''0'' \<or> hd ds \<noteq> CHR ''0'')
          \<and> foldl (\<lambda>a c. 10 * a + (of_char c - 48)) 0 ds = nat \<bar>n\<bar>)
   \<and> get_status_text (Some (Fin 0)) = Inr ''Code: 0''
   \<and> get_status_text (Some (Fin 7)) = Inr ''Code: 7''
   \<and> get_status_text (Some (Fin 5)) = Inr ''Code: 5''
   \<and> get_status_text (Some (Fin 10)) = Inr ''Code: 10''
   \<and> get_status_text (Some (Fin 404)) = Inr ''Code: 404''
   \<and> get_status_text (Some (Fin (- 4))) = Inr ''Code: -4''
   \<and> get_status_text (Some (Fin (- 120))) = Inr ''Code: -120''
   \<and> sublist ''Retry'' (emoji_retry @ '' Upload Retry Success'')
   \<and> sublist ''Retry'' (emoji_wifi @ '' WiFi Retry Success'')
   \<and> sublist ''Normal'' (emoji_check @ '' Normal Reading'')
   \<and> attempts None = 1
   \<and> get_status_text None = Inr ''Unknown''"
proof -
  have a: "attempts (Some (Fin (of_int n))) = (if n = 1 \<or> n = 2 then 2 else 1)"
    by (auto simp: attempts_def notna_def)
  have b: "get_status_text (Some (Fin (of_int n))) =
       Inr (if n = 1 then emoji_retry @ '' Upload Retry Success''
            else if n = 2 then emoji_wifi @ '' WiFi Retry Success''
            else if n = 3 then emoji_battery @ '' Low Battery Warning''
            else if n = 4 then emoji_check @ '' Normal Reading''
            else ''Code: '' @ str_int n)"
    by (simp add: get_status_text_of_int status_map_cases)
  have c: "attempts None = 1"
    by (simp add: attempts_def notna_def)
  have d: "get_status_text None = Inr ''Unknown''"
    by (simp add: get_status_text_def isna_def)
  have e: "get_status_text (Some (Fin 0)) = Inr ''Code: 0''"
    "get_status_text (Some (Fin 7)) = Inr ''Code: 7''"
    "get_status_text (Some (Fin 5)) = Inr ''Code: 5''"
    "get_status_text (Some (Fin 10)) = Inr ''Code: 10''"
    "get_status_text (Some (Fin 404)) = Inr ''Code: 404''"
    "get_status_text (Some (Fin (- 4))) = Inr ''Code: -4''"
    "get_status_text (Some (Fin (- 120))) = Inr ''Code: -120''"
    by code_simp+
  show ?thesis
    using a b c d e code_label [of n] sublist_Retry_upload sublist_Retry_wifi sublist_Normal
    by blast
qed

theorem derive_attempts_table_witness:
  "get_status_text (Some (Fin (of_int 2024))) = Inr ''Code: 2024''
   \<and> attempts (Some (Fin (of_int 2024))) = 1"
proof -
  have "str_int 2024 = ''2024''" by code_simp
  then show ?thesis
    using derive_attempts_table [of 2024] by simp
qed

text \<open>
  Claim C10: the label of a present, finite status code \<open>x\<close> is the label of \<open>int(x)\<close>,
  the integer obtained by truncating \<open>x\<close> toward zero: for \<open>x \<ge> 0\<close> the integer \<open>n\<close>
  with \<open>n \<le> x < n + 1\<close>, for \<open>x \<le> 0\<close> the integer \<open>n\<close> with \<open>n - 1 < x \<le> n\<close>.
  So 4.9 is labelled as code 4 (Normal Reading), 1.5 as code 1 (Upload Retry Success),
  and -4.9 as code -4.
\<close>

theorem get_status_text_truncates:
  "(0 \<le> x \<and> of_int n \<le> x \<and> x < of_int n + 1 \<longrightarrow>
      get_status_text (Some (Fin x)) = get_status_text (Some (Fin (of_int n))))
   \<and> (x \<le> 0 \<and> of_int n - 1 < x \<and> x \<le> of_int n \<longrightarrow>
      get_status_text (Some (Fin x)) = get_status_text (Some (Fin (of_int n))))
   \<and> get_status_text (Some (Fin (49 / 10))) = Inr (emoji_check @ '' Normal Reading'')
   \<and> get_status_text (Some (Fin (3 / 2))) = Inr (emoji_retry @ '' Upload Retry Success'')
   \<and> get_status_text (Some (Fin (- (49 / 10)))) = Inr ''Code: -4''"
proof -
  have pos: "get_status_text (Some (Fin x)) = get_status_text (Some (Fin (of_int n)))"
    if "0 \<le> x" "of_int n \<le> x" "x < of_int n + 1"
  proof -
    have "\<lfloor>x\<rfloor> = n"
      using that by (simp add: floor_unique)
    then show ?thesis
      using that get_status_text_Fin [of x] by simp
  qed
  have neg: "get_status_text (Some (Fin x)) = get_status_text (Some (Fin (of_int n)))"
    if "x \<le> 0" "of_int n - 1 < x" "x \<le> of_int n"
  proof -
    have c: "\<lceil>x\<rceil> = n"
      using that by (simp add: ceiling_unique)
    show ?thesis
    proof (cases "x = 0")
      case True
      with c have "n = 0" by simp
      with True show ?thesis by simp
    next
      case False
      with that have "\<not> 0 \<le> x" by simp
      then show ?thesis
        using c get_status_text_Fin [of x] by simp
    qed
  qed
  have e1: "get_status_text (Some (Fin (49 / 10))) = Inr (emoji_check @ '' Normal Reading'')"
    by code_simp
  have e2: "get_status_text (Some (Fin (3 / 2))) = Inr (emoji_retry @ '' Upload Retry Success'')"
    by code_simp
  have e3: "get_status_text (Some (Fin (- (49 / 10)))) = Inr ''Code: -4''"
    by code_simp
  show ?thesis
    using pos neg e1 e2 e3 by blast
qed

theorem get_status_text_truncates_witness:
  "(0::rat) \<le> 49 / 10 \<and> of_int 4 \<le> (49 / 10 :: rat) \<and> (49 / 10 :: rat) < of_int 4 + 1
   \<and> get_status_text (Some (Fin (49 / 10))) = get_status_text (Some (Fin (of_int 4)))"
proof -
  have h: "(0::rat) \<le> 49 / 10 \<and> of_int 4 \<le> (49 / 10 :: rat) \<and> (49 / 10 :: rat) < of_int 4 + 1"
    by simp
  show ?thesis
    using h get_status_text_truncates [of "49 / 10" 4] by blast
qed

section \<open>Properties of the data frame\<close>












section \<open>Properties of \<open>process_data\<close>\<close>

text \<open>
  Claim C3, as stated, fails: for a response whose feed list is empty, \<open>process_data\<close>
  does not return an empty data frame.
\<close>

theorem process_data_empty_feeds_counterexample:
  "process_data sample_library (Some \<lparr>feeds = Some []\<rparr>) \<noteq> Inr (Some [])"
  by (simp add: process_data_def)

text \<open>
  Claim C3, amended: for every batch whose feed list is empty or missing, \<open>process_data\<close>
  returns the distinguished null result \<open>None\<close>, not an error and not an empty sequence
  of records; it does the same when there is no batch at all.
\<close>

theorem process_data_empty_feeds:
  "process_data L None = Inr None
   \<and> process_data L (Some \<lparr>feeds = None\<rparr>) = Inr None
   \<and> process_data L (Some \<lparr>feeds = Some []\<rparr>) = Inr None"
  by (simp add: process_data_def)






section \<open>Properties of \<open>check_missed_updates\<close>\<close>





text \<open>
  Claim C2, as stated, fails on the text of the message: it is not "no data available".
\<close>

theorem check_missed_updates_no_data_counterexample:
  "check_missed_updates 0 (Some []) 3 \<noteq> (''danger'', [Lit ''no data available''])"
  by (simp add: check_missed_updates_def)

text \<open>
  Claim C2, amended: for every expected interval and every clock reading,
  \<open>check_missed_updates\<close> on no data frame or on an empty one returns the kind \<open>danger\<close>
  (Missed) with the message "No data available".
\<close>

theorem check_missed_updates_no_data:
  "check_missed_updates now None iv = (''danger'', [Lit ''No data available''])
   \<and> check_missed_updates now (Some []) iv = (''danger'', [Lit ''No data available''])"
  by (simp add: check_missed_updates_def)

section \<open>Properties of \<open>extract_signal_strength\<close>\<close>



lemma not_digit_minus: "\<not> is_digit CHR ''-''"
  by (simp add: is_digit_def)










lemma digits_val_snoc: "digits_val (ds @ [d]) = 10 * digits_val ds + digit_val d"
  by (simp add: digits_val_def)

lemma int_of_str_signed:
  assumes "ds \<noteq> []" "\<forall>c\<in>set ds. is_digit c"
  shows "int_of_str ds = int (digits_val ds)" "int_of_str (''-'' @ ds) = - int (digits_val ds)"
proof -
  from assms obtain d0 dt where "ds = d0 # dt" "is_digit d0" by (cases ds) auto
  then have "\<not> prefix ''-'' ds" using not_digit_minus by (auto simp: prefix_def)
  then show "int_of_str ds = int (digits_val ds)" by (simp add: int_of_str_def)
  show "int_of_str (''-'' @ ds) = - int (digits_val ds)" by (simp add: int_of_str_def)
qed



section \<open>Decimal texts\<close>

text \<open>
  The text that \<open>str_int\<close> writes, in the label \<open>Code: n\<close>, is read back by \<open>int_of_str\<close>
  as the same integer.
\<close>

lemma digit_char_props:
  assumes "d < 10"
  shows "is_digit (digit_char d)" "digit_val (digit_char d) = d"
proof -
  from assms have "d \<in> {0, 1, 2, 3, 4, 5, 6, 7, 8, 9}" by auto
  then show "is_digit (digit_char d)" "digit_val (digit_char d) = d"
    by (auto simp: digit_char_def is_digit_def digit_val_def)
qed

lemma str_nat_digits: "str_nat n \<noteq> [] \<and> (\<forall>c\<in>set (str_nat n). is_digit c) \<and> digits_val (str_nat n) = n"
proof (induction n rule: str_nat.induct)
  case (1 n)
  show ?case
  proof (cases "n < 10")
    case True
    then show ?thesis
      by (subst (1 2 3) str_nat.simps) (simp add: digit_char_props digits_val_def)
  next
    case False
    with 1 have ih: "str_nat (n div 10) \<noteq> []" "\<forall>c\<in>set (str_nat (n div 10)). is_digit c"
      "digits_val (str_nat (n div 10)) = n div 10" by auto
    have s: "str_nat n = str_nat (n div 10) @ [digit_char (n mod 10)]"
      using False by (subst str_nat.simps) simp
    show ?thesis
      using ih by (simp add: s digits_val_snoc digit_char_props)
  qed
qed

lemma int_of_str_str_int: "int_of_str (str_int n) = n"
proof (cases "n < 0")
  case True
  then show ?thesis
    using int_of_str_signed(2) [of "str_nat (nat (- n))"] str_nat_digits [of "nat (- n)"]
    by (simp add: str_int_def)
next
  case False
  then show ?thesis
    using int_of_str_signed(1) [of "str_nat (nat n)"] str_nat_digits [of "nat n"]
    by (simp add: str_int_def)
qed

end
